theory Spec2Isabelle
  imports Main "HOL-Library.Word" "HOL-Library.Monad_Syntax"
begin

section \<open>The path expression engine of pathx.c\<close>

text \<open>
  A shallow embedding of \<^verbatim>\<open>src/pathx.c\<close>: the parser of path expressions, the type
  checker, the evaluator over a tree held in a store, the axis traversal and the public
  entry points.

  Conventions of the embedding.
  \<^item> A C pointer that may be \<^verbatim>\<open>NULL\<close> is an \<open>option\<close>; \<open>None\<close> is \<^verbatim>\<open>NULL\<close>.
  \<^item> A function of the C code that does not return normally (it loops forever, it
    dereferences \<^verbatim>\<open>NULL\<close> or reads outside an array, or it reaches \<^verbatim>\<open>assert(0)\<close>)
    has the result \<open>None\<close>; a normal return is \<open>Some\<close> of the returned value and
    the updated state.
  \<^item> The allocation macros \<^verbatim>\<open>ALLOC\<close>, \<^verbatim>\<open>ALLOC_N\<close>, \<^verbatim>\<open>REALLOC_N\<close> and \<^verbatim>\<open>strndup\<close>,
    \<^verbatim>\<open>strdup\<close> are taken to succeed (and \<^verbatim>\<open>ALLOC\<close> to zero the memory, as it does).
    The capacities \<^verbatim>\<open>size\<close>, \<^verbatim>\<open>values_size\<close> and \<^verbatim>\<open>exprs_size\<close> are then not observable
    and are left out; the capacity of the value pool is kept, since \<^verbatim>\<open>make_value\<close>
    itself refuses to double it beyond 32 bits. The \<^verbatim>\<open>free_*\<close> functions have no
    counterpart.
  \<^item> \<^verbatim>\<open>int\<close> and \<^verbatim>\<open>uint\<close> are 32 bit words, \<^verbatim>\<open>unsigned long\<close> is a 64 bit word (LP64).
\<close>

subsection \<open>Enumerations\<close>

datatype type = T_NONE | T_NODESET | T_BOOLEAN | T_NUMBER | T_STRING

datatype expr_tag = E_LOCPATH | E_BINARY | E_VALUE | E_APP

datatype binary_op = OP_EQ | OP_NEQ | OP_PLUS | OP_MINUS | OP_STAR

datatype axis = SELF | CHILD | DESCENDANT | DESCENDANT_OR_SELF | PARENT | ANCESTOR | ROOT

text \<open>
  The error codes \<^verbatim>\<open>pathx_errcode_t\<close> are declared in \<^verbatim>\<open>internal.h\<close>; their order is
  that of the messages in \<^verbatim>\<open>errcodes[]\<close>.
\<close>

datatype pathx_errcode_t =
    PATHX_NOERROR | PATHX_ENAME | PATHX_ESTRING | PATHX_ENUMBER | PATHX_EDELIM
  | PATHX_ENOEQUAL | PATHX_ENOMEM | PATHX_EPRED | PATHX_ESLASH | PATHX_EINTERNAL
  | PATHX_ETYPE

definition axis_names :: "(string \<times> axis) list" where
  "axis_names =
     [(''self'', SELF), (''child'', CHILD), (''descendant'', DESCENDANT),
      (''descendant-or-self'', DESCENDANT_OR_SELF), (''parent'', PARENT),
      (''ancestor'', ANCESTOR), (''root'', ROOT)]"

subsection \<open>Characters and C strings\<close>

text \<open>The classification of \<^verbatim>\<open>ctype.h\<close> in the C locale.\<close>

definition isspace :: "char \<Rightarrow> bool" where
  "isspace c = (let n = (of_char c :: nat) in n = 32 \<or> (9 \<le> n \<and> n \<le> 13))"

definition isalpha :: "char \<Rightarrow> bool" where
  "isalpha c = (let n = (of_char c :: nat) in (65 \<le> n \<and> n \<le> 90) \<or> (97 \<le> n \<and> n \<le> 122))"

definition isdigit :: "char \<Rightarrow> bool" where
  "isdigit c = (let n = (of_char c :: nat) in 48 \<le> n \<and> n \<le> 57)"

text \<open>
  A \<^verbatim>\<open>const char *\<close> into the expression is the rest of the text from there on; the
  terminating \<^verbatim>\<open>'\0'\<close> is the end of the list. \<open>cstr\<close> cuts a byte sequence at its first
  \<^verbatim>\<open>'\0'\<close>, \<open>cur\<close> is \<^verbatim>\<open>*p\<close>.
\<close>

definition cstr :: "string \<Rightarrow> string" where
  "cstr s = takeWhile (\<lambda>c. c \<noteq> CHR 0x00) s"

definition cur :: "string \<Rightarrow> char" where
  "cur p = (case p of [] \<Rightarrow> CHR 0x00 | c # _ \<Rightarrow> c)"

text \<open>\<^verbatim>\<open>STREQLEN(p, token, strlen(token))\<close>, for a token without \<^verbatim>\<open>'\0'\<close>.\<close>

definition streqlen :: "string \<Rightarrow> string \<Rightarrow> bool" where
  "streqlen p token = (take (length token) p = token)"

text \<open>We consider NULL and the empty string to be equal.\<close>

definition streqx :: "string option \<Rightarrow> string option \<Rightarrow> bool" where
  "streqx s1 s2 =
     (case s1 of
        None \<Rightarrow> (case s2 of None \<Rightarrow> True | Some b \<Rightarrow> length b = 0)
      | Some a \<Rightarrow> (case s2 of None \<Rightarrow> length a = 0 | Some b \<Rightarrow> a = b))"

subsection \<open>The tree and the store\<close>

text \<open>
  \<^verbatim>\<open>struct tree\<close> is declared in \<^verbatim>\<open>internal.h\<close>; pathx.c reads the fields below. The
  store is the list of all allocated nodes, and a \<^verbatim>\<open>struct tree *\<close> is an index into it.
\<close>

type_synonym tree_ptr = "nat option"

record tree =
  t_next :: tree_ptr
  t_parent :: tree_ptr
  t_label :: "string option"
  t_children :: tree_ptr
  t_value :: "string option"

type_synonym heap = "tree list"

definition deref :: "heap \<Rightarrow> tree_ptr \<Rightarrow> tree option" where
  "deref h p = (case p of None \<Rightarrow> None | Some a \<Rightarrow> if a < length h then Some (h ! a) else None)"

subsection \<open>Expressions, values and the state\<close>

text \<open>
  \<^verbatim>\<open>const struct func *\<close> points into \<^verbatim>\<open>builtin_funcs\<close>; the implementation
  \<^verbatim>\<open>func_impl_t\<close> is named by a tag.
\<close>

datatype func_impl_t = FUNC_LAST | FUNC_POSITION

record func =
  f_name :: string
  arity :: nat
  f_type :: type
  arg_types :: "type list"
  impl :: func_impl_t

definition builtin_funcs :: "func list" where
  "builtin_funcs =
     [\<lparr>f_name = ''last'', arity = 0, f_type = T_NUMBER, arg_types = [], impl = FUNC_LAST\<rparr>,
      \<lparr>f_name = ''position'', arity = 0, f_type = T_NUMBER, arg_types = [],
       impl = FUNC_POSITION\<rparr>]"

text \<open>
  \<^verbatim>\<open>struct expr\<close> is a tagged union; every variant carries the field \<^verbatim>\<open>type\<close>. A
  \<^verbatim>\<open>struct locpath *\<close> is the list of its steps, or \<^verbatim>\<open>NULL\<close>; a \<^verbatim>\<open>struct pred *\<close> is
  the list of its \<^verbatim>\<open>nexpr\<close> expressions, or \<^verbatim>\<open>NULL\<close>.
\<close>

datatype expr =
    Locpath type "step list option"
  | Binary type binary_op expr expr
  | Value type nat
  | App type func "expr list"
and step = Step (axis: axis) (name: "string option") (predicates: "expr list option")

fun tag :: "expr \<Rightarrow> expr_tag" where
  "tag (Locpath _ _) = E_LOCPATH"
| "tag (Binary _ _ _ _) = E_BINARY"
| "tag (Value _ _) = E_VALUE"
| "tag (App _ _ _) = E_APP"

fun type_of :: "expr \<Rightarrow> type" where
  "type_of (Locpath t _) = t"
| "type_of (Binary t _ _ _) = t"
| "type_of (Value t _) = t"
| "type_of (App t _ _) = t"

fun set_type :: "expr \<Rightarrow> type \<Rightarrow> expr" where
  "set_type (Locpath _ lp) t = Locpath t lp"
| "set_type (Binary _ op l r) t = Binary t op l r"
| "set_type (Value _ vi) t = Value t vi"
| "set_type (App _ f args) t = App t f args"

type_synonym nodeset = "tree_ptr list"

text \<open>\<^verbatim>\<open>struct value\<close>: the tag and the member of the union that goes with it.\<close>

datatype value_t =
    V_NODESET "nodeset option"
  | V_NUMBER "32 word"
  | V_STRING "string option"
  | V_BOOLEAN bool

fun value_tag :: "value_t \<Rightarrow> type" where
  "value_tag (V_NODESET _) = T_NODESET"
| "value_tag (V_NUMBER _) = T_NUMBER"
| "value_tag (V_STRING _) = T_STRING"
| "value_tag (V_BOOLEAN _) = T_BOOLEAN"

text \<open>
  \<^verbatim>\<open>struct state\<close>. \<open>expr_text\<close> is \<^verbatim>\<open>txt\<close>, \<open>value_stack\<close> is \<^verbatim>\<open>values\<close> (bottom of the
  stack first), \<^verbatim>\<open>value_pool_used\<close> is the length of \<open>value_pool\<close>, \<^verbatim>\<open>values_used\<close> that
  of \<open>value_stack\<close> and \<^verbatim>\<open>exprs_used\<close> that of \<open>exprs\<close>.
\<close>

record state =
  errcode :: pathx_errcode_t
  expr_text :: string
  pos :: string
  ctx :: tree_ptr
  ctx_pos :: "32 word"
  ctx_len :: "32 word"
  value_pool :: "value_t list"
  value_pool_size :: "32 word"
  value_stack :: "nat list"
  exprs :: "expr list"

record pathx =
  state :: state
  locpath :: "step list option"
  nodeset :: "nodeset option"
  node :: "32 word"
  origin :: tree_ptr

definition HAS_ERROR :: "state \<Rightarrow> bool" where
  "HAS_ERROR st = (errcode st \<noteq> PATHX_NOERROR)"

definition STATE_ERROR :: "state \<Rightarrow> pathx_errcode_t \<Rightarrow> state" where
  "STATE_ERROR st err = st\<lparr>errcode := err\<rparr>"

subsection \<open>Handling values\<close>

text \<open>
  The slot that \<^verbatim>\<open>make_value\<close> hands out carries the tag only; here its union starts as
  zero. \<^verbatim>\<open>make_value\<close> asserts that the tag is not \<^verbatim>\<open>T_BOOLEAN\<close>, and no caller passes
  \<^verbatim>\<open>T_NONE\<close>.
\<close>

fun fresh_value :: "type \<Rightarrow> value_t option" where
  "fresh_value T_NODESET = Some (V_NODESET None)"
| "fresh_value T_NUMBER = Some (V_NUMBER 0)"
| "fresh_value T_STRING = Some (V_STRING None)"
| "fresh_value T_BOOLEAN = None"
| "fresh_value T_NONE = None"

definition make_value :: "type \<Rightarrow> state \<Rightarrow> (nat \<times> state) option" where
  "make_value tg st =
     (case fresh_value tg of
        None \<Rightarrow> None
      | Some v \<Rightarrow>
          if unat (value_pool_size st) \<le> length (value_pool st) then
            (let new_size = 2 * value_pool_size st in
             if new_size \<le> value_pool_size st then Some (0, STATE_ERROR st PATHX_ENOMEM)
             else Some (length (value_pool st),
                        st\<lparr>value_pool_size := new_size, value_pool := value_pool st @ [v]\<rparr>))
          else Some (length (value_pool st), st\<lparr>value_pool := value_pool st @ [v]\<rparr>))"

text \<open>On an empty stack \<^verbatim>\<open>pop_value_ind\<close> reaches \<^verbatim>\<open>assert(0)\<close>.\<close>

definition pop_value_ind :: "state \<Rightarrow> (nat \<times> state) option" where
  "pop_value_ind st =
     (if value_stack st \<noteq> [] then
        Some (last (value_stack st), st\<lparr>value_stack := butlast (value_stack st)\<rparr>)
      else None)"

text \<open>
  \<^verbatim>\<open>pop_value\<close> returns \<^verbatim>\<open>NULL\<close> in an error state; otherwise the pointer
  \<^verbatim>\<open>value_pool + vind\<close>, which every caller dereferences at once.
\<close>

definition pop_value :: "state \<Rightarrow> (value_t option \<times> state) option" where
  "pop_value st =
     (case pop_value_ind st of
        None \<Rightarrow> None
      | Some (vind, st') \<Rightarrow>
          if HAS_ERROR st' then Some (None, st')
          else if vind < length (value_pool st') then Some (Some (value_pool st' ! vind), st')
          else None)"

definition push_value :: "nat \<Rightarrow> state \<Rightarrow> state" where
  "push_value vind st = st\<lparr>value_stack := value_stack st @ [vind]\<rparr>"

definition push_boolean_value :: "bool \<Rightarrow> state \<Rightarrow> state" where
  "push_boolean_value b st = push_value (if b then 1 else 0) st"

definition expr_value :: "nat \<Rightarrow> state \<Rightarrow> value_t option" where
  "expr_value value_ind st =
     (if value_ind < length (value_pool st) then Some (value_pool st ! value_ind) else None)"

text \<open>The assignments \<^verbatim>\<open>state->value_pool[vind].member = x\<close>.\<close>

definition set_value :: "nat \<Rightarrow> value_t \<Rightarrow> state \<Rightarrow> state option" where
  "set_value vind v st =
     (if vind < length (value_pool st) then Some (st\<lparr>value_pool := (value_pool st)[vind := v]\<rparr>)
      else None)"

subsection \<open>Evaluation: functions, equality and arithmetic\<close>

definition func_last :: "state \<Rightarrow> state option" where
  "func_last st =
     (case make_value T_NUMBER st of
        None \<Rightarrow> None
      | Some (vind, st1) \<Rightarrow>
          if HAS_ERROR st1 then Some st1
          else map_option (push_value vind) (set_value vind (V_NUMBER (ctx_len st1)) st1))"

definition func_position :: "state \<Rightarrow> state option" where
  "func_position st =
     (case make_value T_NUMBER st of
        None \<Rightarrow> None
      | Some (vind, st1) \<Rightarrow>
          if HAS_ERROR st1 then Some st1
          else map_option (push_value vind) (set_value vind (V_NUMBER (ctx_pos st1)) st1))"

fun call_impl :: "func_impl_t \<Rightarrow> state \<Rightarrow> state option" where
  "call_impl FUNC_LAST st = func_last st"
| "call_impl FUNC_POSITION st = func_position st"

text \<open>The test in the body of the loops of \<^verbatim>\<open>calc_eq_*\<close>.\<close>

definition eq_test :: "bool \<Rightarrow> string option \<Rightarrow> string option \<Rightarrow> bool" where
  "eq_test neq a b = (if neq then \<not> streqx a b else streqx a b)"

text \<open>The inner loop of \<^verbatim>\<open>calc_eq_nodeset_nodeset\<close>, over \<open>i2\<close>.\<close>

fun calc_eq_node_nodeset :: "heap \<Rightarrow> tree_ptr \<Rightarrow> nodeset \<Rightarrow> bool \<Rightarrow> bool option" where
  "calc_eq_node_nodeset h t1 [] neq = Some False"
| "calc_eq_node_nodeset h t1 (t2 # ns2) neq =
     (case (deref h t1, deref h t2) of
        (Some n1, Some n2) \<Rightarrow>
          if eq_test neq (t_value n1) (t_value n2) then Some True
          else calc_eq_node_nodeset h t1 ns2 neq
      | _ \<Rightarrow> None)"

fun calc_eq_nodeset_nodeset :: "heap \<Rightarrow> nodeset \<Rightarrow> nodeset \<Rightarrow> bool \<Rightarrow> bool option" where
  "calc_eq_nodeset_nodeset h [] ns2 neq = Some False"
| "calc_eq_nodeset_nodeset h (t1 # ns1) ns2 neq =
     (case calc_eq_node_nodeset h t1 ns2 neq of
        None \<Rightarrow> None
      | Some True \<Rightarrow> Some True
      | Some False \<Rightarrow> calc_eq_nodeset_nodeset h ns1 ns2 neq)"

fun calc_eq_nodeset_string :: "heap \<Rightarrow> nodeset \<Rightarrow> string option \<Rightarrow> bool \<Rightarrow> bool option" where
  "calc_eq_nodeset_string h [] s neq = Some False"
| "calc_eq_nodeset_string h (t # ns) s neq =
     (case deref h t of
        None \<Rightarrow> None
      | Some n \<Rightarrow>
          if eq_test neq (t_value n) s then Some True
          else calc_eq_nodeset_string h ns s neq)"

text \<open>
  The chain of tests of \<^verbatim>\<open>eval_eq\<close> on the two popped values. A \<^verbatim>\<open>NULL\<close> set, the
  string member of a value that is no string, and the two asserts of the last branch end
  the run.
\<close>

fun eval_eq_res :: "heap \<Rightarrow> value_t \<Rightarrow> value_t \<Rightarrow> bool \<Rightarrow> bool option" where
  "eval_eq_res h (V_NODESET (Some ln)) (V_NODESET (Some rn)) neq =
     calc_eq_nodeset_nodeset h ln rn neq"
| "eval_eq_res h (V_NODESET (Some ln)) (V_STRING s) neq = calc_eq_nodeset_string h ln s neq"
| "eval_eq_res h (V_STRING s) (V_NODESET (Some rn)) neq = calc_eq_nodeset_string h rn s neq"
| "eval_eq_res h (V_NUMBER l) (V_NUMBER r) neq = Some (if neq then l \<noteq> r else l = r)"
| "eval_eq_res h (V_STRING l) (V_STRING r) neq = Some (streqx l r)"
| "eval_eq_res h _ _ neq = None"

definition eval_eq :: "heap \<Rightarrow> state \<Rightarrow> bool \<Rightarrow> state option" where
  "eval_eq h st neq =
     (case pop_value st of
        None \<Rightarrow> None
      | Some (r, st1) \<Rightarrow>
         (case pop_value st1 of
            None \<Rightarrow> None
          | Some (l, st2) \<Rightarrow>
             (case (l, r) of
                (Some lv, Some rv) \<Rightarrow>
                  (case eval_eq_res h lv rv neq of
                     None \<Rightarrow> None
                   | Some res \<Rightarrow>
                       if HAS_ERROR st2 then Some st2 else Some (push_boolean_value res st2))
              | _ \<Rightarrow> None)))"

text \<open>
  \<^verbatim>\<open>eval_arith\<close>: the asserts on the tags come first, the arithmetic of \<^verbatim>\<open>int\<close> wraps
  around.
\<close>

definition eval_arith :: "state \<Rightarrow> binary_op \<Rightarrow> state option" where
  "eval_arith st op =
     (case pop_value st of
        None \<Rightarrow> None
      | Some (r, st1) \<Rightarrow>
         (case pop_value st1 of
            None \<Rightarrow> None
          | Some (l, st2) \<Rightarrow>
             (case (l, r) of
                (Some (V_NUMBER ln), Some (V_NUMBER rn)) \<Rightarrow>
                  (case make_value T_NUMBER st2 of
                     None \<Rightarrow> None
                   | Some (vind, st3) \<Rightarrow>
                       if HAS_ERROR st3 then Some st3
                       else
                         (case op of
                            OP_PLUS \<Rightarrow>
                              map_option (push_value vind) (set_value vind (V_NUMBER (ln + rn)) st3)
                          | OP_MINUS \<Rightarrow>
                              map_option (push_value vind) (set_value vind (V_NUMBER (ln - rn)) st3)
                          | OP_STAR \<Rightarrow>
                              map_option (push_value vind) (set_value vind (V_NUMBER (ln * rn)) st3)
                          | _ \<Rightarrow> None))
              | _ \<Rightarrow> None)))"

subsection \<open>Searching in the tree\<close>

text \<open>\<^verbatim>\<open>step_matches\<close> reads the label only when the step has a name.\<close>

definition step_matches :: "heap \<Rightarrow> step \<Rightarrow> tree_ptr \<Rightarrow> bool option" where
  "step_matches h step p =
     (if name step = None then Some True
      else map_option (\<lambda>t. streqx (name step) (t_label t)) (deref h p))"

text \<open>The loop of the axis \<^verbatim>\<open>ROOT\<close> in \<^verbatim>\<open>step_first\<close>: climb until the parent is the node.\<close>

partial_function (option) step_first_root :: "heap \<Rightarrow> tree_ptr \<Rightarrow> tree_ptr option" where
  "step_first_root h c =
     (case deref h c of
        None \<Rightarrow> None
      | Some t \<Rightarrow> if t_parent t \<noteq> c then step_first_root h (t_parent t) else Some c)"

declare step_first_root.simps [code]

text \<open>
  The inner loop of the descendant axes in \<^verbatim>\<open>step_next\<close>:
  \<^verbatim>\<open>while (node->next == NULL && node != ctx) node = node->parent;\<close>
\<close>

partial_function (option) step_next_climb :: "heap \<Rightarrow> tree_ptr \<Rightarrow> tree_ptr \<Rightarrow> tree_ptr option" where
  "step_next_climb h c n =
     (case deref h n of
        None \<Rightarrow> None
      | Some t \<Rightarrow> if t_next t = None \<and> n \<noteq> c then step_next_climb h c (t_parent t) else Some n)"

declare step_next_climb.simps [code]

text \<open>One turn of the \<^verbatim>\<open>switch\<close> of \<^verbatim>\<open>step_next\<close>, for a node that is not \<^verbatim>\<open>NULL\<close>.\<close>

definition step_next_axis :: "heap \<Rightarrow> step \<Rightarrow> tree_ptr \<Rightarrow> tree_ptr \<Rightarrow> tree_ptr option" where
  "step_next_axis h step c n =
     (case axis step of
        SELF \<Rightarrow> Some None
      | CHILD \<Rightarrow> map_option t_next (deref h n)
      | PARENT \<Rightarrow> Some None
      | ROOT \<Rightarrow> Some None
      | ANCESTOR \<Rightarrow>
          (case deref h n of
             None \<Rightarrow> None
           | Some t \<Rightarrow> if t_parent t = n then Some None else Some (t_parent t))
      | _ \<Rightarrow>
          (case deref h n of
             None \<Rightarrow> None
           | Some t \<Rightarrow>
               if t_children t \<noteq> None then Some (t_children t)
               else
                 (case step_next_climb h c n of
                    None \<Rightarrow> None
                  | Some n' \<Rightarrow> if n' = c then Some None else map_option t_next (deref h n'))))"

partial_function (option) step_next :: "heap \<Rightarrow> step \<Rightarrow> tree_ptr \<Rightarrow> tree_ptr \<Rightarrow> tree_ptr option" where
  "step_next h step c n =
     (if n = None then Some None
      else
        (case step_next_axis h step c n of
           None \<Rightarrow> None
         | Some n' \<Rightarrow>
             if n' = None then Some None
             else
               (case step_matches h step n' of
                  None \<Rightarrow> None
                | Some m \<Rightarrow> if m then Some n' else step_next h step c n')))"

declare step_next.simps [code]

text \<open>
  \<^verbatim>\<open>step_first\<close>. The axis \<^verbatim>\<open>ROOT\<close> moves the local \<^verbatim>\<open>ctx\<close> to the root, and it is this
  \<^verbatim>\<open>ctx\<close> that goes on to \<^verbatim>\<open>step_next\<close>.
\<close>

definition step_first_axis :: "heap \<Rightarrow> step \<Rightarrow> tree_ptr \<Rightarrow> (tree_ptr \<times> tree_ptr) option" where
  "step_first_axis h step c =
     (case axis step of
        SELF \<Rightarrow> Some (c, c)
      | DESCENDANT_OR_SELF \<Rightarrow> Some (c, c)
      | CHILD \<Rightarrow> map_option (\<lambda>t. (c, t_children t)) (deref h c)
      | DESCENDANT \<Rightarrow> map_option (\<lambda>t. (c, t_children t)) (deref h c)
      | PARENT \<Rightarrow> map_option (\<lambda>t. (c, t_parent t)) (deref h c)
      | ANCESTOR \<Rightarrow> map_option (\<lambda>t. (c, t_parent t)) (deref h c)
      | ROOT \<Rightarrow> map_option (\<lambda>r. (r, r)) (step_first_root h c))"

definition step_first :: "heap \<Rightarrow> step \<Rightarrow> tree_ptr \<Rightarrow> tree_ptr option" where
  "step_first h step c =
     (case step_first_axis h step c of
        None \<Rightarrow> None
      | Some (c', n) \<Rightarrow>
          if n = None then Some None
          else
            (case step_matches h step n of
               None \<Rightarrow> None
             | Some m \<Rightarrow> if m then Some n else step_next h step c' n))"

subsection \<open>Evaluation of expressions and location paths\<close>

definition ns_add :: "nodeset \<Rightarrow> tree_ptr \<Rightarrow> nodeset" where
  "ns_add ns n = ns @ [n]"

text \<open>
  The loops of \<^verbatim>\<open>ns_from_locpath\<close> that collect the nodes of a step: for one node of
  the working set, from \<^verbatim>\<open>step_first\<close> along \<^verbatim>\<open>step_next\<close> until \<^verbatim>\<open>NULL\<close>; and over the
  working set.
\<close>

partial_function (option) ns_add_from ::
  "heap \<Rightarrow> step \<Rightarrow> tree_ptr \<Rightarrow> tree_ptr \<Rightarrow> nodeset \<Rightarrow> nodeset option" where
  "ns_add_from h step w n nxt =
     (if n = None then Some nxt
      else
        (case step_next h step w n of
           None \<Rightarrow> None
         | Some n' \<Rightarrow> ns_add_from h step w n' (ns_add nxt n)))"

declare ns_add_from.simps [code]

fun ns_expand :: "heap \<Rightarrow> step \<Rightarrow> nodeset \<Rightarrow> nodeset \<Rightarrow> nodeset option" where
  "ns_expand h step [] nxt = Some nxt"
| "ns_expand h step (w # work) nxt =
     (case step_first h step w of
        None \<Rightarrow> None
      | Some n \<Rightarrow>
         (case ns_add_from h step w n nxt of
            None \<Rightarrow> None
          | Some nxt' \<Rightarrow> ns_expand h step work nxt'))"

text \<open>The \<^verbatim>\<open>switch\<close> of \<^verbatim>\<open>eval_pred\<close> on the value it popped.\<close>

fun eval_pred_res :: "state \<Rightarrow> value_t \<Rightarrow> bool option" where
  "eval_pred_res st (V_BOOLEAN b) = Some b"
| "eval_pred_res st (V_NUMBER n) = Some (ctx_pos st = n)"
| "eval_pred_res st (V_NODESET (Some ns)) = Some (length ns > 0)"
| "eval_pred_res st _ = None"

text \<open>
  The evaluator. \<open>eval_app_args\<close> is the loop of \<^verbatim>\<open>eval_app\<close> over the arguments.
  In \<^verbatim>\<open>ns_from_locpath\<close>, \<open>ns_steps\<close> is the loop over the steps (\<open>done\<close> holds the
  node sets \<open>ns[0..cur_ns - 1]\<close> and \<open>work\<close> is \<open>ns[cur_ns]\<close>), \<open>ns_preds\<close> the loop over the
  predicates \<open>p\<close> of a step, and \<open>ns_filter\<close> the loop over the nodes of \<open>next\<close> for one
  predicate: \<open>kept\<close> is \<open>next->nodes[0..i-1]\<close>, the list after it is
  \<open>next->nodes[i..used-1]\<close>, and removing the entry at \<open>i\<close> is the \<^verbatim>\<open>memmove\<close>.
\<close>

function (sequential)
  eval_expr :: "heap \<Rightarrow> expr \<Rightarrow> state \<Rightarrow> state option" and
  eval_binary :: "heap \<Rightarrow> expr \<Rightarrow> state \<Rightarrow> state option" and
  eval_app :: "heap \<Rightarrow> expr \<Rightarrow> state \<Rightarrow> state option" and
  eval_app_args :: "heap \<Rightarrow> expr list \<Rightarrow> state \<Rightarrow> state option" and
  eval_pred :: "heap \<Rightarrow> expr \<Rightarrow> state \<Rightarrow> (bool \<times> state) option" and
  ns_filter :: "heap \<Rightarrow> expr \<Rightarrow> nodeset \<Rightarrow> nodeset \<Rightarrow> state \<Rightarrow> (nodeset \<times> state) option" and
  ns_preds :: "heap \<Rightarrow> expr list \<Rightarrow> nodeset \<Rightarrow> state \<Rightarrow> (nodeset \<times> state) option" and
  ns_steps ::
    "heap \<Rightarrow> step list \<Rightarrow> nodeset list \<Rightarrow> nodeset \<Rightarrow> state \<Rightarrow> (nodeset list \<times> state) option" and
  ns_from_locpath :: "heap \<Rightarrow> step list option \<Rightarrow> state \<Rightarrow> (nodeset list \<times> state) option" and
  eval_locpath :: "heap \<Rightarrow> step list option \<Rightarrow> state \<Rightarrow> state option"
where
  "eval_expr h e st =
     (if HAS_ERROR st then Some st
      else
        (case e of
           Locpath _ lp \<Rightarrow> eval_locpath h lp st
         | Binary _ _ _ _ \<Rightarrow> eval_binary h e st
         | Value _ value_ind \<Rightarrow> Some (push_value value_ind st)
         | App _ _ _ \<Rightarrow> eval_app h e st))"
| "eval_binary h (Binary t op l r) st =
     (case eval_expr h l st of
        None \<Rightarrow> None
      | Some st1 \<Rightarrow>
         (case eval_expr h r st1 of
            None \<Rightarrow> None
          | Some st2 \<Rightarrow>
              if HAS_ERROR st2 then Some st2
              else
                (case op of
                   OP_EQ \<Rightarrow> eval_eq h st2 False
                 | OP_NEQ \<Rightarrow> eval_eq h st2 True
                 | _ \<Rightarrow> eval_arith st2 op)))"
| "eval_binary h _ st = None"
| "eval_app h (App t f args) st =
     (if length args \<noteq> arity f then None
      else
        (case eval_app_args h args st of
           None \<Rightarrow> None
         | Some st1 \<Rightarrow> if HAS_ERROR st1 then Some st1 else call_impl (impl f) st1))"
| "eval_app h _ st = None"
| "eval_app_args h [] st = Some st"
| "eval_app_args h (a # args) st =
     (case eval_expr h a st of
        None \<Rightarrow> None
      | Some st1 \<Rightarrow> if HAS_ERROR st1 then Some st1 else eval_app_args h args st1)"
| "eval_pred h e st =
     (case eval_expr h e st of
        None \<Rightarrow> None
      | Some st1 \<Rightarrow>
         (case pop_value st1 of
            None \<Rightarrow> None
          | Some (None, st2) \<Rightarrow> None
          | Some (Some v, st2) \<Rightarrow> map_option (\<lambda>b. (b, st2)) (eval_pred_res st2 v)))"
| "ns_filter h e kept [] st = Some (kept, st)"
| "ns_filter h e kept (n # rest) st =
     (case eval_pred h e (st\<lparr>ctx := n\<rparr>) of
        None \<Rightarrow> None
      | Some (b, st1) \<Rightarrow>
          if b then ns_filter h e (kept @ [n]) rest (st1\<lparr>ctx_pos := ctx_pos st1 + 1\<rparr>)
          else ns_filter h e kept rest (st1\<lparr>ctx_pos := ctx_pos st1 + 1\<rparr>))"
| "ns_preds h [] nxt st = Some (nxt, st)"
| "ns_preds h (e # preds) nxt st =
     (case ns_filter h e [] nxt (st\<lparr>ctx_len := of_nat (length nxt), ctx_pos := 1\<rparr>) of
        None \<Rightarrow> None
      | Some (nxt', st1) \<Rightarrow> ns_preds h preds nxt' st1)"
| "ns_steps h [] done work st = Some (done @ [work], st)"
| "ns_steps h (Step a nm prd # steps) done work st =
     (case ns_expand h (Step a nm prd) work [] of
        None \<Rightarrow> None
      | Some nxt \<Rightarrow>
         (case prd of
            None \<Rightarrow> ns_steps h steps (done @ [work]) nxt st
          | Some preds \<Rightarrow>
             (case ns_preds h preds nxt st of
                None \<Rightarrow> None
              | Some (nxt', st1) \<Rightarrow> ns_steps h steps (done @ [work]) nxt' st1)))"
| "ns_from_locpath h None st = None"
| "ns_from_locpath h (Some steps) st =
     (case ns_steps h steps [] (ns_add [] (ctx st)) st of
        None \<Rightarrow> None
      | Some (ns, st1) \<Rightarrow>
          Some (ns, st1\<lparr>ctx := ctx st, ctx_pos := ctx_pos st, ctx_len := ctx_len st\<rparr>))"
| "eval_locpath h lp st =
     (case ns_from_locpath h lp st of
        None \<Rightarrow> None
      | Some (ns, st1) \<Rightarrow>
          if HAS_ERROR st1 then Some st1
          else
            (case make_value T_NODESET st1 of
               None \<Rightarrow> None
             | Some (vind, st2) \<Rightarrow>
                 if HAS_ERROR st2 then Some st2
                 else map_option (push_value vind) (set_value vind (V_NODESET (Some (last ns))) st2)))"
  by pat_completeness auto


termination
  by (relation "inv_image (less_than <*lex*> less_than <*lex*> less_than)
        (\<lambda>x. case x of
           Inl (Inl (Inl (h, e, st))) \<Rightarrow> (size e, 1::nat, 0::nat)
         | Inl (Inl (Inr (h, e, st))) \<Rightarrow> (size e, 0, 0)
         | Inl (Inr (Inl (h, e, st))) \<Rightarrow> (size e, 0, 0)
         | Inl (Inr (Inr (Inl (h, args, st)))) \<Rightarrow> (size_list size args, 0, 0)
         | Inl (Inr (Inr (Inr (h, e, st)))) \<Rightarrow> (size e, 2, 0)
         | Inr (Inl (Inl (h, e, kept, rest, st))) \<Rightarrow> (size e, 3, length rest)
         | Inr (Inl (Inr (h, preds, nxt, st))) \<Rightarrow> (size_list size preds, 0, 0)
         | Inr (Inr (Inl (h, steps, dn, work, st))) \<Rightarrow> (size_list size steps, 0, 0)
         | Inr (Inr (Inr (Inl (h, lp, st)))) \<Rightarrow> (size_option (size_list size) lp, 0, 0)
         | Inr (Inr (Inr (Inr (h, lp, st)))) \<Rightarrow> (size_option (size_list size) lp, 1, 0))")
     auto


declare eval_expr.simps [simp del] eval_pred.simps [simp del] eval_locpath.simps [simp del]

subsection \<open>The public iteration: first, next, find-one\<close>

text \<open>
  \<^verbatim>\<open>pathx->node + 1 < pathx->nodeset->used\<close> compares an \<^verbatim>\<open>int\<close> with a \<^verbatim>\<open>size_t\<close>: the
  \<^verbatim>\<open>int\<close> is sign extended to 64 bits and read as unsigned.
\<close>

definition pathx_next :: "pathx \<Rightarrow> (tree_ptr \<times> pathx) option" where
  "pathx_next p =
     (case nodeset p of
        None \<Rightarrow> None
      | Some ns \<Rightarrow>
          if unat (scast (node p + 1) :: 64 word) < length ns
          then Some (ns ! unat (node p + 1), p\<lparr>node := node p + 1\<rparr>)
          else Some (None, p))"

text \<open>
  The body of \<^verbatim>\<open>if (pathx->nodeset == NULL)\<close> in \<^verbatim>\<open>pathx_first\<close>: \<open>Inl\<close> is the early
  \<^verbatim>\<open>return NULL\<close>, \<open>Inr\<close> falls through to the end of the function.
\<close>

definition pathx_first_eval :: "heap \<Rightarrow> pathx \<Rightarrow> (pathx + pathx) option" where
  "pathx_first_eval h p =
     (let st = (state p)\<lparr>ctx := origin p, ctx_pos := 1, ctx_len := 1\<rparr> in
      case exprs st of
        [] \<Rightarrow> None
      | e0 # _ \<Rightarrow>
         (case eval_expr h e0 st of
            None \<Rightarrow> None
          | Some st1 \<Rightarrow>
              if HAS_ERROR st1 then Some (Inl (p\<lparr>state := st1\<rparr>))
              else if length (value_stack st1) \<noteq> 1
              then Some (Inl (p\<lparr>state := STATE_ERROR st1 PATHX_EINTERNAL\<rparr>))
              else
                (case pop_value st1 of
                   Some (Some (V_NODESET ns), st2) \<Rightarrow> Some (Inr (p\<lparr>state := st2, nodeset := ns\<rparr>))
                 | _ \<Rightarrow> None)))"

definition pathx_first :: "heap \<Rightarrow> pathx \<Rightarrow> (tree_ptr \<times> pathx) option" where
  "pathx_first h p =
     (case (if nodeset p = None then pathx_first_eval h p else Some (Inr p)) of
        None \<Rightarrow> None
      | Some (Inl p1) \<Rightarrow> Some (None, p1)
      | Some (Inr p1) \<Rightarrow>
         (case nodeset p1 of
            None \<Rightarrow> None
          | Some ns \<Rightarrow>
              if length ns = 0 then Some (None, p1\<lparr>node := 0\<rparr>)
              else Some (ns ! 0, p1\<lparr>node := 0\<rparr>)))"

definition pathx_find_one :: "heap \<Rightarrow> pathx \<Rightarrow> (int \<times> tree_ptr \<times> pathx) option" where
  "pathx_find_one h p =
     (case pathx_first h p of
        None \<Rightarrow> None
      | Some (t, p1) \<Rightarrow>
          if t = None then Some (0, None, p1)
          else
            (case pathx_next p1 of
               None \<Rightarrow> None
             | Some (t', p2) \<Rightarrow> if t' \<noteq> None then Some (- 1, None, p2) else Some (1, t, p2)))"

subsection \<open>Utility functions for the parser\<close>

definition skipws :: "state \<Rightarrow> state" where
  "skipws st = st\<lparr>pos := dropWhile isspace (pos st)\<rparr>"

definition match :: "state \<Rightarrow> char \<Rightarrow> bool \<times> state" where
  "match st m =
     (let st1 = skipws st in
      if cur (pos st1) = CHR 0x00 then (False, st1)
      else if cur (pos st1) = m then (True, st1\<lparr>pos := tl (pos st1)\<rparr>)
      else (False, st1))"

text \<open>
  \<^verbatim>\<open>peek\<close> is \<^verbatim>\<open>strchr(chars, *state->pos) != NULL\<close>, and \<^verbatim>\<open>strchr\<close> finds the terminating
  \<^verbatim>\<open>'\0'\<close> of \<^verbatim>\<open>chars\<close> as well: at the end of the text \<^verbatim>\<open>peek\<close> is true.
\<close>

definition peek :: "state \<Rightarrow> string \<Rightarrow> bool" where
  "peek st chars = (cur (pos st) \<in> set chars \<or> cur (pos st) = CHR 0x00)"

definition looking_at :: "state \<Rightarrow> string \<Rightarrow> string \<Rightarrow> bool \<times> state" where
  "looking_at st token follow =
     (if streqlen (pos st) token then
        (let p = dropWhile isspace (drop (length token) (pos st)) in
         if streqlen p follow then (True, st\<lparr>pos := drop (length follow) p\<rparr>) else (False, st))
      else (False, st))"

subsection \<open>The parser\<close>

text \<open>On an empty stack \<^verbatim>\<open>pop_expr\<close> reaches \<^verbatim>\<open>assert(0)\<close>.\<close>

definition pop_expr :: "state \<Rightarrow> (expr \<times> state) option" where
  "pop_expr st =
     (if exprs st \<noteq> [] then Some (last (exprs st), st\<lparr>exprs := butlast (exprs st)\<rparr>)
      else None)"

definition push_expr :: "expr \<Rightarrow> state \<Rightarrow> state" where
  "push_expr e st = st\<lparr>exprs := exprs st @ [e]\<rparr>"

definition push_new_binary_op :: "binary_op \<Rightarrow> state \<Rightarrow> state option" where
  "push_new_binary_op op st =
     (case pop_expr st of
        None \<Rightarrow> None
      | Some (r, st1) \<Rightarrow>
         (case pop_expr st1 of
            None \<Rightarrow> None
          | Some (l, st2) \<Rightarrow> Some (push_expr (Binary T_NONE op l r) st2)))"

text \<open>
  The loops \<^verbatim>\<open>for (i = n - 1; i >= 0; i--) a[i] = pop_expr(state)\<close> of
  \<^verbatim>\<open>parse_predicates\<close> and \<^verbatim>\<open>parse_function_call\<close>.
\<close>

fun pop_exprs :: "nat \<Rightarrow> state \<Rightarrow> (expr list \<times> state) option" where
  "pop_exprs 0 st = Some ([], st)"
| "pop_exprs (Suc k) st =
     (case pop_expr st of
        None \<Rightarrow> None
      | Some (e, st1) \<Rightarrow>
         (case pop_exprs k st1 of
            None \<Rightarrow> None
          | Some (es, st2) \<Rightarrow> Some (es @ [e], st2)))"

text \<open>
  The scanning loop of \<^verbatim>\<open>parse_name\<close>; \<open>False\<close> is the return on a backslash at the
  end of the text. \<^verbatim>\<open>SEP\<close> is the slash.
\<close>

fun parse_name_scan :: "string \<Rightarrow> bool \<times> string" where
  "parse_name_scan [] = (True, [])"
| "parse_name_scan (c # cs) =
     (if c = CHR ''['' \<or> c = CHR ''/'' \<or> c = CHR '']'' \<or> c = CHR ''='' \<or> isspace c
      then (True, c # cs)
      else if c = CHR 0x5C then
        (case cs of [] \<Rightarrow> (False, []) | d # ds \<Rightarrow> parse_name_scan ds)
      else parse_name_scan cs)"

text \<open>The loop of \<^verbatim>\<open>parse_name\<close> that drops the backslashes.\<close>

fun unescape :: "string \<Rightarrow> string" where
  "unescape [] = []"
| "unescape (c # cs) =
     (if c = CHR 0x5C then (case cs of [] \<Rightarrow> [] | d # ds \<Rightarrow> d # unescape ds)
      else c # unescape cs)"

definition parse_name :: "state \<Rightarrow> string option \<times> state" where
  "parse_name st =
     (let s = pos st; (ok, p) = parse_name_scan s in
      if \<not> ok then (None, STATE_ERROR (st\<lparr>pos := p\<rparr>) PATHX_ENAME)
      else if length p = length s then (None, STATE_ERROR (st\<lparr>pos := p\<rparr>) PATHX_ENAME)
      else (Some (unescape (take (length s - length p) s)), st\<lparr>pos := p\<rparr>))"

definition make_step :: "axis \<Rightarrow> step" where
  "make_step a = Step a None None"

text \<open>
  \<^verbatim>\<open>strtoul(s, &end, 10)\<close> of the C library: white space, an optional sign, the digits;
  the result is the value, the rest of the text, and whether \<^verbatim>\<open>errno\<close> was set. Without
  digits nothing is converted and the rest is \<open>s\<close>; a value beyond \<^verbatim>\<open>ULONG_MAX\<close> gives
  \<^verbatim>\<open>ULONG_MAX\<close> and \<^verbatim>\<open>ERANGE\<close>.
\<close>

definition digits_value :: "string \<Rightarrow> int" where
  "digits_value ds = foldl (\<lambda>v c. 10 * v + (of_char c - 48)) 0 ds"

definition strtoul :: "string \<Rightarrow> 64 word \<times> string \<times> bool" where
  "strtoul s =
     (let p = dropWhile isspace s;
          neg = (cur p = CHR ''-'');
          q = (if cur p = CHR ''-'' \<or> cur p = CHR ''+'' then tl p else p);
          ds = takeWhile isdigit q
      in if ds = [] then (0, s, False)
         else if 2 ^ 64 \<le> digits_value ds then (- 1, dropWhile isdigit q, True)
         else ((if neg then - word_of_int (digits_value ds) else word_of_int (digits_value ds)),
               dropWhile isdigit q, False))"

definition parse_number :: "state \<Rightarrow> state option" where
  "parse_number st =
     (let (val, end_p, errno) = strtoul (pos st) in
      if errno \<or> length end_p = length (pos st) \<or> (scast (ucast val :: 32 word) :: 64 word) \<noteq> val
      then Some (STATE_ERROR st PATHX_ENUMBER)
      else
        (case make_value T_NUMBER (st\<lparr>pos := end_p\<rparr>) of
           None \<Rightarrow> None
         | Some (vind, st1) \<Rightarrow>
             if HAS_ERROR st1 then Some st1
             else map_option (push_expr (Value T_NONE vind))
                    (set_value vind (V_NUMBER (ucast val)) st1)))"

definition parse_literal :: "state \<Rightarrow> state option" where
  "parse_literal st =
     (if cur (pos st) \<noteq> CHR 0x22 \<and> cur (pos st) \<noteq> CHR 0x27 then Some (STATE_ERROR st PATHX_ESTRING)
      else
        (let delim = cur (pos st);
             s = tl (pos st);
             p = dropWhile (\<lambda>c. c \<noteq> delim) s
         in if cur p \<noteq> delim then Some (STATE_ERROR (st\<lparr>pos := p\<rparr>) PATHX_EDELIM)
            else
              (case make_value T_STRING (st\<lparr>pos := tl p\<rparr>) of
                 None \<Rightarrow> None
               | Some (vind, st1) \<Rightarrow>
                   if HAS_ERROR st1 then Some st1
                   else map_option (push_expr (Value T_NONE vind))
                          (set_value vind (V_STRING (Some (takeWhile (\<lambda>c. c \<noteq> delim) s))) st1))))"

definition looking_at_primary_expr :: "state \<Rightarrow> bool" where
  "looking_at_primary_expr st =
     (if peek st (CHR 0x27 # CHR 0x22 # ''0123456789'') then True
      else cur (dropWhile isspace (dropWhile isalpha (pos st))) = CHR ''('')"

text \<open>The loop of \<^verbatim>\<open>parse_step\<close> over \<^verbatim>\<open>axis_names\<close>; it stops at the first match.\<close>

fun find_axis :: "(string \<times> axis) list \<Rightarrow> axis \<Rightarrow> state \<Rightarrow> axis \<times> state" where
  "find_axis [] a st = (a, st)"
| "find_axis ((nm, ax) # rest) a st =
     (case looking_at st nm ''::'' of
        (True, st1) \<Rightarrow> (ax, st1)
      | (False, st1) \<Rightarrow> find_axis rest a st1)"

text \<open>
  The loop of \<^verbatim>\<open>parse_function_call\<close> over \<^verbatim>\<open>builtin_funcs\<close>; it has no \<^verbatim>\<open>break\<close> and
  goes on after a match.
\<close>

fun find_func :: "func list \<Rightarrow> func option \<Rightarrow> state \<Rightarrow> func option \<times> state" where
  "find_func [] f st = (f, st)"
| "find_func (b # rest) f st =
     (case looking_at st (f_name b) ''('' of
        (True, st1) \<Rightarrow> find_func rest (Some b) st1
      | (False, st1) \<Rightarrow> find_func rest f st1)"

text \<open>
  \<^verbatim>\<open>list_append(locpath->steps, step)\<close> on the list of steps; a \<^verbatim>\<open>NULL\<close> step adds
  nothing.
\<close>

definition list_append_step :: "step list \<Rightarrow> step option \<Rightarrow> step list" where
  "list_append_step steps step = (case step of None \<Rightarrow> steps | Some s \<Rightarrow> steps @ [s])"

text \<open>
  The recursive descent. The functions of the parser call each other through
  \<^verbatim>\<open>parse_expr\<close> only (from \<^verbatim>\<open>parse_predicates\<close> and \<^verbatim>\<open>parse_function_call\<close>); here
  each of them takes that recursive call as its first argument \<open>pe\<close>, and \<open>parse_expr\<close>
  closes the recursion with a bound on the nesting depth of expressions: \<open>None\<close> is also
  the answer when the bound is used up. The loops are \<open>parse_predicates_loop\<close>
  (\<^verbatim>\<open>while (match(state, L_BRACK))\<close>, counting \<open>nexpr\<close>; the first component \<open>None\<close> is
  the \<^verbatim>\<open>return NULL\<close> from inside the loop), \<open>parse_relative_location_path_loop\<close>
  (\<^verbatim>\<open>while (match(state, '/'))\<close>), \<open>parse_function_call_args\<close> (the
  \<^verbatim>\<open>do ... while (match(state, ','))\<close>, counting \<open>nargs\<close>),
  \<open>parse_multiplicative_expr_loop\<close> and \<open>parse_additive_expr_loop\<close>.
\<close>

partial_function (option) parse_predicates_loop ::
  "(state \<Rightarrow> state option) \<Rightarrow> state \<Rightarrow> nat \<Rightarrow> (nat option \<times> state) option" where
  "parse_predicates_loop pe st nexpr =
     (case match st (CHR ''['') of
        (m, st1) \<Rightarrow>
          if \<not> m then Some (Some nexpr, st1)
          else
            (case pe st1 of
               None \<Rightarrow> None
             | Some st2 \<Rightarrow>
                 if HAS_ERROR st2 then Some (None, st2)
                 else
                   (case match st2 (CHR '']'') of
                      (m2, st3) \<Rightarrow>
                        if \<not> m2 then Some (None, STATE_ERROR st3 PATHX_EPRED)
                        else parse_predicates_loop pe (skipws st3) (nexpr + 1))))"

declare parse_predicates_loop.simps [code]

definition parse_predicates ::
  "(state \<Rightarrow> state option) \<Rightarrow> state \<Rightarrow> (expr list option \<times> state) option" where
  "parse_predicates pe st =
     (case parse_predicates_loop pe st 0 of
        None \<Rightarrow> None
      | Some (None, st1) \<Rightarrow> Some (None, st1)
      | Some (Some nexpr, st1) \<Rightarrow>
          if nexpr = 0 then Some (None, st1)
          else
            (case pop_exprs nexpr st1 of
               None \<Rightarrow> None
             | Some (es, st2) \<Rightarrow> Some (Some es, st2)))"

definition parse_step ::
  "(state \<Rightarrow> state option) \<Rightarrow> state \<Rightarrow> (step option \<times> state) option" where
  "parse_step pe st =
     (if cur (pos st) = CHR ''.'' \<and> cur (tl (pos st)) = CHR ''.''
      then Some (Some (Step PARENT None None), st\<lparr>pos := drop 2 (pos st)\<rparr>)
      else
        (case match st (CHR ''.'') of
           (True, st1) \<Rightarrow> Some (Some (Step SELF None None), st1)
         | (False, st1) \<Rightarrow>
            (case find_axis axis_names CHILD st1 of
               (a, st2) \<Rightarrow>
                 (case (case match st2 (CHR ''*'') of
                          (True, st3) \<Rightarrow> (None, st3, False)
                        | (False, st3) \<Rightarrow>
                            (case parse_name st3 of (nm, st4) \<Rightarrow> (nm, st4, HAS_ERROR st4))) of
                    (nm, st4, err) \<Rightarrow>
                      if err then Some (None, st4)
                      else
                        (case parse_predicates pe st4 of
                           None \<Rightarrow> None
                         | Some (prd, st5) \<Rightarrow>
                             if HAS_ERROR st5 then Some (None, st5)
                             else Some (Some (Step a nm prd), st5))))))"

partial_function (option) parse_relative_location_path_loop ::
  "(state \<Rightarrow> state option) \<Rightarrow> state \<Rightarrow> step list \<Rightarrow> (step list option \<times> state) option" where
  "parse_relative_location_path_loop pe st steps =
     (case match st (CHR ''/'') of
        (m, st1) \<Rightarrow>
          if \<not> m then Some (Some steps, st1)
          else
            (case (if cur (pos st1) = CHR ''/''
                   then (list_append_step steps (Some (make_step DESCENDANT_OR_SELF)),
                         st1\<lparr>pos := tl (pos st1)\<rparr>)
                   else (steps, st1)) of
               (steps1, st2) \<Rightarrow>
                 (case parse_step pe st2 of
                    None \<Rightarrow> None
                  | Some (step, st3) \<Rightarrow>
                      if HAS_ERROR st3 then Some (None, st3)
                      else parse_relative_location_path_loop pe st3
                             (list_append_step steps1 step))))"

declare parse_relative_location_path_loop.simps [code]

definition parse_relative_location_path ::
  "(state \<Rightarrow> state option) \<Rightarrow> state \<Rightarrow> (step list option \<times> state) option" where
  "parse_relative_location_path pe st =
     (case parse_step pe st of
        None \<Rightarrow> None
      | Some (step, st1) \<Rightarrow>
          if HAS_ERROR st1 then Some (None, st1)
          else parse_relative_location_path_loop pe st1 (list_append_step [] step))"

text \<open>
  In the relative branch the result of \<^verbatim>\<open>parse_relative_location_path\<close> is not checked:
  after an error an expression with the \<^verbatim>\<open>NULL\<close> path is pushed.
\<close>

definition parse_location_path :: "(state \<Rightarrow> state option) \<Rightarrow> state \<Rightarrow> state option" where
  "parse_location_path pe st =
     (case match st (CHR ''/'') of
        (True, st1) \<Rightarrow>
          if cur (pos st1) = CHR ''/'' then
            (case parse_relative_location_path pe (st1\<lparr>pos := tl (pos st1)\<rparr>) of
               None \<Rightarrow> None
             | Some (lp, st2) \<Rightarrow>
                 if HAS_ERROR st2 then Some st2
                 else
                   (case lp of
                      None \<Rightarrow> None
                    | Some steps \<Rightarrow>
                        Some (push_expr
                               (Locpath T_NONE (Some (make_step DESCENDANT_OR_SELF # steps))) st2)))
          else
            (case (if cur (pos st1) \<noteq> CHR 0x00 then parse_relative_location_path pe st1
                   else Some (Some [], st1)) of
               None \<Rightarrow> None
             | Some (lp, st2) \<Rightarrow>
                 if HAS_ERROR st2 then Some st2
                 else
                   (case lp of
                      None \<Rightarrow> None
                    | Some steps \<Rightarrow>
                        Some (push_expr (Locpath T_NONE (Some (make_step ROOT # steps))) st2)))
      | (False, st1) \<Rightarrow>
         (case parse_relative_location_path pe st1 of
            None \<Rightarrow> None
          | Some (lp, st2) \<Rightarrow> Some (push_expr (Locpath T_NONE lp) st2)))"

partial_function (option) parse_function_call_args ::
  "(state \<Rightarrow> state option) \<Rightarrow> state \<Rightarrow> nat \<Rightarrow> (nat \<times> state) option" where
  "parse_function_call_args pe st nargs =
     (case pe st of
        None \<Rightarrow> None
      | Some st1 \<Rightarrow>
          if HAS_ERROR st1 then Some (nargs + 1, st1)
          else
            (case match st1 (CHR '','') of
               (m, st2) \<Rightarrow>
                 if m then parse_function_call_args pe st2 (nargs + 1)
                 else Some (nargs + 1, st2)))"

declare parse_function_call_args.simps [code]

text \<open>
  In \<open>parse_function_call\<close> the third component of the inner result says that the
  function has returned (after an error).
\<close>

definition parse_function_call :: "(state \<Rightarrow> state option) \<Rightarrow> state \<Rightarrow> state option" where
  "parse_function_call pe st =
     (case find_func builtin_funcs None st of
        (None, st1) \<Rightarrow> Some (STATE_ERROR st1 PATHX_ENAME)
      | (Some f, st1) \<Rightarrow>
         (case (case match st1 (CHR '')'') of
                  (True, st2) \<Rightarrow> Some (0, st2, False)
                | (False, st2) \<Rightarrow>
                   (case parse_function_call_args pe st2 0 of
                      None \<Rightarrow> None
                    | Some (nargs, st3) \<Rightarrow>
                        if HAS_ERROR st3 then Some (nargs, st3, True)
                        else
                          (case match st3 (CHR '')'') of
                             (True, st4) \<Rightarrow> Some (nargs, st4, False)
                           | (False, st4) \<Rightarrow> Some (nargs, STATE_ERROR st4 PATHX_EDELIM, True)))) of
            None \<Rightarrow> None
          | Some (nargs, st5, ret) \<Rightarrow>
              if ret then Some st5
              else if nargs \<noteq> arity f then Some (STATE_ERROR st5 PATHX_EDELIM)
              else
                (case pop_exprs nargs st5 of
                   None \<Rightarrow> None
                 | Some (args, st6) \<Rightarrow> Some (push_expr (App T_NONE f args) st6))))"

definition parse_primary_expr :: "(state \<Rightarrow> state option) \<Rightarrow> state \<Rightarrow> state option" where
  "parse_primary_expr pe st =
     (if peek st [CHR 0x27, CHR 0x22] then parse_literal st
      else if peek st ''0123456789'' then parse_number st
      else parse_function_call pe st)"

definition parse_path_expr :: "(state \<Rightarrow> state option) \<Rightarrow> state \<Rightarrow> state option" where
  "parse_path_expr pe st =
     (if looking_at_primary_expr st then parse_primary_expr pe st else parse_location_path pe st)"

partial_function (option) parse_multiplicative_expr_loop ::
  "(state \<Rightarrow> state option) \<Rightarrow> state \<Rightarrow> state option" where
  "parse_multiplicative_expr_loop pe st =
     (case match st (CHR ''*'') of
        (m, st1) \<Rightarrow>
          if \<not> m then Some st1
          else
            (case parse_path_expr pe st1 of
               None \<Rightarrow> None
             | Some st2 \<Rightarrow>
                 if HAS_ERROR st2 then Some st2
                 else
                   (case push_new_binary_op OP_STAR st2 of
                      None \<Rightarrow> None
                    | Some st3 \<Rightarrow> parse_multiplicative_expr_loop pe st3)))"

declare parse_multiplicative_expr_loop.simps [code]

definition parse_multiplicative_expr :: "(state \<Rightarrow> state option) \<Rightarrow> state \<Rightarrow> state option" where
  "parse_multiplicative_expr pe st =
     (case parse_path_expr pe st of
        None \<Rightarrow> None
      | Some st1 \<Rightarrow> if HAS_ERROR st1 then Some st1 else parse_multiplicative_expr_loop pe st1)"

partial_function (option) parse_additive_expr_loop ::
  "(state \<Rightarrow> state option) \<Rightarrow> state \<Rightarrow> state option" where
  "parse_additive_expr_loop pe st =
     (if cur (pos st) = CHR ''+'' \<or> cur (pos st) = CHR ''-'' then
        (case parse_multiplicative_expr pe (skipws (st\<lparr>pos := tl (pos st)\<rparr>)) of
           None \<Rightarrow> None
         | Some st1 \<Rightarrow>
             if HAS_ERROR st1 then Some st1
             else
               (case push_new_binary_op (if cur (pos st) = CHR ''+'' then OP_PLUS else OP_MINUS)
                       st1 of
                  None \<Rightarrow> None
                | Some st2 \<Rightarrow> parse_additive_expr_loop pe st2))
      else Some st)"

declare parse_additive_expr_loop.simps [code]

definition parse_additive_expr :: "(state \<Rightarrow> state option) \<Rightarrow> state \<Rightarrow> state option" where
  "parse_additive_expr pe st =
     (case parse_multiplicative_expr pe st of
        None \<Rightarrow> None
      | Some st1 \<Rightarrow> if HAS_ERROR st1 then Some st1 else parse_additive_expr_loop pe st1)"

definition parse_equality_expr :: "(state \<Rightarrow> state option) \<Rightarrow> state \<Rightarrow> state option" where
  "parse_equality_expr pe st =
     (case parse_additive_expr pe st of
        None \<Rightarrow> None
      | Some st1 \<Rightarrow>
          if HAS_ERROR st1 then Some st1
          else if cur (pos st1) = CHR ''='' \<or>
                  (cur (pos st1) = CHR ''!'' \<and> cur (tl (pos st1)) = CHR ''='')
          then
            (let op = (if cur (pos st1) = CHR ''='' then OP_EQ else OP_NEQ) in
             case parse_additive_expr pe
                    (skipws (st1\<lparr>pos := drop (if op = OP_EQ then 1 else 2) (pos st1)\<rparr>)) of
               None \<Rightarrow> None
             | Some st2 \<Rightarrow> if HAS_ERROR st2 then Some st2 else push_new_binary_op op st2)
          else Some st1)"

primrec parse_expr :: "nat \<Rightarrow> state \<Rightarrow> state option" where
  "parse_expr 0 st = None"
| "parse_expr (Suc n) st = parse_equality_expr (parse_expr n) (skipws st)"

subsection \<open>Typechecker\<close>

text \<open>
  The checker writes the field \<^verbatim>\<open>type\<close> of the expressions in place; here it returns
  the expression with the types filled in (as far as the check went) and the state.
  \<open>check_app_args\<close> is the loop of \<^verbatim>\<open>check_app\<close> (its last component says that
  \<^verbatim>\<open>check_app\<close> has returned from inside the loop), \<open>check_steps\<close> the loop of
  \<^verbatim>\<open>check_locpath\<close>.
\<close>

function (sequential)
  check_expr :: "expr \<Rightarrow> state \<Rightarrow> (expr \<times> state) option" and
  check_binary :: "expr \<Rightarrow> state \<Rightarrow> (expr \<times> state) option" and
  check_app :: "expr \<Rightarrow> state \<Rightarrow> (expr \<times> state) option" and
  check_app_args :: "expr list \<Rightarrow> type list \<Rightarrow> state \<Rightarrow> (expr list \<times> state \<times> bool) option" and
  check_preds :: "expr list \<Rightarrow> state \<Rightarrow> (expr list \<times> state) option" and
  check_steps :: "step list \<Rightarrow> state \<Rightarrow> (step list \<times> state) option" and
  check_locpath :: "expr \<Rightarrow> state \<Rightarrow> (expr \<times> state) option"
where
  "check_expr e st =
     (if HAS_ERROR st then Some (e, st)
      else
        (case e of
           Locpath _ _ \<Rightarrow> check_locpath e st
         | Binary _ _ _ _ \<Rightarrow> check_binary e st
         | Value _ value_ind \<Rightarrow>
             (case expr_value value_ind st of
                None \<Rightarrow> None
              | Some v \<Rightarrow> Some (Value (value_tag v) value_ind, st))
         | App _ _ _ \<Rightarrow> check_app e st))"
| "check_binary (Binary t op l r) st =
     (case check_expr l st of
        None \<Rightarrow> None
      | Some (l', st1) \<Rightarrow>
         (case check_expr r st1 of
            None \<Rightarrow> None
          | Some (r', st2) \<Rightarrow>
              if HAS_ERROR st2 then Some (Binary t op l' r', st2)
              else
                (let lt = type_of l'; rt = type_of r';
                     ok = (if op = OP_EQ \<or> op = OP_NEQ
                           then ((lt = T_NODESET \<or> lt = T_STRING) \<and> (rt = T_NODESET \<or> rt = T_STRING))
                                \<or> (lt = T_NUMBER \<and> rt = T_NUMBER)
                           else lt = T_NUMBER \<and> rt = T_NUMBER);
                     res = (if op = OP_EQ \<or> op = OP_NEQ then T_BOOLEAN else T_NUMBER)
                 in if \<not> ok then Some (Binary t op l' r', STATE_ERROR st2 PATHX_ETYPE)
                    else Some (Binary res op l' r', st2))))"
| "check_binary _ st = None"
| "check_app (App t f args) st =
     (if length args \<noteq> arity f then None
      else
        (case check_app_args args (arg_types f) st of
           None \<Rightarrow> None
         | Some (args', st1, ret) \<Rightarrow>
             if ret then Some (App t f args', st1) else Some (App (f_type f) f args', st1)))"
| "check_app _ st = None"
| "check_app_args [] tys st = Some ([], st, False)"
| "check_app_args (a # args) tys st =
     (case check_expr a st of
        None \<Rightarrow> None
      | Some (a', st1) \<Rightarrow>
          if HAS_ERROR st1 then Some (a' # args, st1, True)
          else
            (case tys of
               [] \<Rightarrow> None
             | ty # tys' \<Rightarrow>
                 if type_of a' \<noteq> ty then Some (a' # args, STATE_ERROR st1 PATHX_ETYPE, True)
                 else
                   (case check_app_args args tys' st1 of
                      None \<Rightarrow> None
                    | Some (args', st2, ret) \<Rightarrow> Some (a' # args', st2, ret))))"
| "check_preds [] st = Some ([], st)"
| "check_preds (e # es) st =
     (case check_expr e st of
        None \<Rightarrow> None
      | Some (e', st1) \<Rightarrow>
          if HAS_ERROR st1 then Some (e' # es, st1)
          else if type_of e' \<noteq> T_NODESET \<and> type_of e' \<noteq> T_NUMBER \<and> type_of e' \<noteq> T_BOOLEAN
          then Some (e' # es, STATE_ERROR st1 PATHX_ETYPE)
          else
            (case check_preds es st1 of
               None \<Rightarrow> None
             | Some (es', st2) \<Rightarrow> Some (e' # es', st2)))"
| "check_steps [] st = Some ([], st)"
| "check_steps (Step a nm prd # steps) st =
     (case prd of
        None \<Rightarrow>
          (case check_steps steps st of
             None \<Rightarrow> None
           | Some (steps', st1) \<Rightarrow> Some (Step a nm prd # steps', st1))
      | Some preds \<Rightarrow>
          (case check_preds preds st of
             None \<Rightarrow> None
           | Some (preds', st1) \<Rightarrow>
               if HAS_ERROR st1 then Some (Step a nm (Some preds') # steps, st1)
               else
                 (case check_steps steps st1 of
                    None \<Rightarrow> None
                  | Some (steps', st2) \<Rightarrow> Some (Step a nm (Some preds') # steps', st2))))"
| "check_locpath (Locpath t lp) st =
     (case lp of
        None \<Rightarrow> None
      | Some steps \<Rightarrow>
          (case check_steps steps st of
             None \<Rightarrow> None
           | Some (steps', st1) \<Rightarrow>
               if HAS_ERROR st1 then Some (Locpath t (Some steps'), st1)
               else Some (Locpath T_NODESET (Some steps'), st1)))"
| "check_locpath _ st = None"
  by pat_completeness auto

termination
  by (relation "inv_image (less_than <*lex*> less_than)
        (\<lambda>x. case x of
           Inl (Inl (e, st)) \<Rightarrow> (size e, 1::nat)
         | Inl (Inr (Inl (e, st))) \<Rightarrow> (size e, 0)
         | Inl (Inr (Inr (e, st))) \<Rightarrow> (size e, 0)
         | Inr (Inl (Inl (args, tys, st))) \<Rightarrow> (size_list size args, 0)
         | Inr (Inl (Inr (es, st))) \<Rightarrow> (size_list size es, 0)
         | Inr (Inr (Inl (steps, st))) \<Rightarrow> (size_list size steps, 0)
         | Inr (Inr (Inr (e, st))) \<Rightarrow> (size e, 0))")
     auto

declare check_expr.simps [simp del]

subsection \<open>Compiling a path expression\<close>

text \<open>
  \<^verbatim>\<open>pathx_parse\<close>, with the bound \<open>depth\<close> on the nesting of expressions. The text is
  cut at its first \<^verbatim>\<open>'\0'\<close>.
\<close>

definition init_state :: "string \<Rightarrow> state" where
  "init_state text =
     \<lparr>errcode = PATHX_NOERROR, expr_text = cstr text, pos = cstr text, ctx = None,
      ctx_pos = 0, ctx_len = 0, value_pool = [V_BOOLEAN False, V_BOOLEAN True],
      value_pool_size = 8, value_stack = [], exprs = []\<rparr>"

definition pathx_done :: "tree_ptr \<Rightarrow> state \<Rightarrow> step list option \<Rightarrow> pathx_errcode_t \<times> pathx" where
  "pathx_done tree st lp =
     (errcode st, \<lparr>state = st, locpath = lp, nodeset = None, node = 0, origin = tree\<rparr>)"

definition pathx_parse :: "nat \<Rightarrow> tree_ptr \<Rightarrow> string \<Rightarrow> (pathx_errcode_t \<times> pathx) option" where
  "pathx_parse depth tree text =
     (case parse_expr depth (init_state text) of
        None \<Rightarrow> None
      | Some st1 \<Rightarrow>
          if HAS_ERROR st1 then Some (pathx_done tree st1 None)
          else if length (exprs st1) \<noteq> 1
          then Some (pathx_done tree (STATE_ERROR st1 PATHX_EINTERNAL) None)
          else
            (case check_expr (exprs st1 ! 0) st1 of
               None \<Rightarrow> None
             | Some (e, st2) \<Rightarrow>
                 (let st3 = st2\<lparr>exprs := (exprs st2)[0 := e]\<rparr> in
                  if HAS_ERROR st3 then Some (pathx_done tree st3 None)
                  else if type_of e \<noteq> T_NODESET \<or> tag e \<noteq> E_LOCPATH
                  then Some (pathx_done tree (STATE_ERROR st3 PATHX_ETYPE) None)
                  else
                    (case e of
                       Locpath _ lp \<Rightarrow> Some (pathx_done tree st3 lp)
                     | _ \<Rightarrow> None))))"


subsection \<open>Prefix expansion\<close>















subsection \<open>The caller's iteration, the invariant of the value pool, an example tree\<close>

text \<open>
  A caller that takes \<^verbatim>\<open>pathx_first\<close> and then \<^verbatim>\<open>pathx_next\<close> until one of them returns
  \<^verbatim>\<open>NULL\<close>, collecting the nodes; \<open>pathx_match\<close> compiles the text first.
\<close>

partial_function (option) pathx_next_all :: "pathx \<Rightarrow> tree_ptr list \<Rightarrow> tree_ptr list option" where
  "pathx_next_all p acc =
     (case pathx_next p of
        None \<Rightarrow> None
      | Some (t, p1) \<Rightarrow> if t = None then Some acc else pathx_next_all p1 (acc @ [t]))"

declare pathx_next_all.simps [code]

definition pathx_iterate :: "heap \<Rightarrow> pathx \<Rightarrow> tree_ptr list option" where
  "pathx_iterate h p =
     (case pathx_first h p of
        None \<Rightarrow> None
      | Some (t, p1) \<Rightarrow> if t = None then Some [] else pathx_next_all p1 [t])"

definition pathx_match ::
  "heap \<Rightarrow> nat \<Rightarrow> tree_ptr \<Rightarrow> string \<Rightarrow> (pathx_errcode_t \<times> tree_ptr list) option" where
  "pathx_match h depth tree text =
     (case pathx_parse depth tree text of
        None \<Rightarrow> None
      | Some (err, p) \<Rightarrow>
          if err \<noteq> PATHX_NOERROR then Some (err, [])
          else map_option (\<lambda>ns. (err, ns)) (pathx_iterate h p))"



text \<open>
  The tree of the concrete scenarios: the root (node 0, its own parent) with the children
  \<open>a\<close> (node 1, value 1), \<open>b\<close> (node 2, value 2) and \<open>a\<close> (node 3, value 1); the second
  \<open>a\<close> has the child \<open>c\<close> (node 4).
\<close>

definition tree_ex :: heap where
  "tree_ex =
     [\<lparr>t_next = None, t_parent = Some 0, t_label = None, t_children = Some 1, t_value = None\<rparr>,
      \<lparr>t_next = Some 2, t_parent = Some 0, t_label = Some ''a'', t_children = None,
       t_value = Some ''1''\<rparr>,
      \<lparr>t_next = Some 3, t_parent = Some 0, t_label = Some ''b'', t_children = None,
       t_value = Some ''2''\<rparr>,
      \<lparr>t_next = None, t_parent = Some 0, t_label = Some ''a'', t_children = Some 4,
       t_value = Some ''1''\<rparr>,
      \<lparr>t_next = None, t_parent = Some 3, t_label = Some ''c'', t_children = None,
       t_value = None\<rparr>]"



definition path_a :: pathx where
  "path_a = snd (the (pathx_parse 2 (Some 0) ''/a''))"



section \<open>Properties\<close>

subsection \<open>Auxiliary facts\<close>

lemma butlast2 [simp]: "butlast (xs @ [a, b]) = xs @ [a]" "last (xs @ [a, b]) = b"
  by (simp_all add: butlast_append)

lemma ns_add_from_None [simp]: "ns_add_from h step w None nxt = Some nxt"
  by (subst ns_add_from.simps) simp

lemma ns_add_from_Some:
  "step_next h step w (Some a) = Some n' \<Longrightarrow>
   ns_add_from h step w (Some a) nxt = ns_add_from h step w n' (nxt @ [Some a])"
  by (subst ns_add_from.simps) (simp add: ns_add_def)




lemma check_frame_aux:
  "pred_option (\<lambda>(e', st'). exprs st' = exprs st) (check_expr e st)"
  "pred_option (\<lambda>(e', st'). exprs st' = exprs st) (check_binary e st)"
  "pred_option (\<lambda>(e', st'). exprs st' = exprs st) (check_app e st)"
  "pred_option (\<lambda>(args', st', r). exprs st' = exprs st) (check_app_args args tys st)"
  "pred_option (\<lambda>(es', st'). exprs st' = exprs st) (check_preds es st)"
  "pred_option (\<lambda>(steps', st'). exprs st' = exprs st) (check_steps steps st)"
  "pred_option (\<lambda>(e', st'). exprs st' = exprs st) (check_locpath e st)"
proof (induction e st and e st and e st and args tys st and es st and steps st and e st
    rule: check_expr_check_binary_check_app_check_app_args_check_preds_check_steps_check_locpath.induct)
  case (1 e st)
  then show ?case
    by (cases e) (simp_all add: check_expr.simps split: option.split)
next
  case (2 t op l r st)
  then show ?case
    by (auto simp: Let_def STATE_ERROR_def split: option.split prod.split)
next
  case (4 t f args st)
  then show ?case
    by (auto split: option.split prod.split)
next
  case (7 a args tys st)
  then show ?case
    by (auto simp: STATE_ERROR_def split: option.split prod.split list.split)
next
  case (9 e es st)
  then show ?case
    by (auto simp: STATE_ERROR_def split: option.split prod.split)
next
  case (11 a nm prd steps st)
  then show ?case
    by (fastforce split: option.split prod.split)
next
  case (12 t lp st)
  then show ?case
    by (auto split: option.split prod.split)
qed simp_all

lemma check_expr_exprs: "check_expr e st = Some (e', st') \<Longrightarrow> exprs st' = exprs st"
  using check_frame_aux(1) [of st e] by simp







lemma pop_value_ok:
  "\<not> HAS_ERROR st \<Longrightarrow> value_stack st = vs @ [vi] \<Longrightarrow> vi < length (value_pool st) \<Longrightarrow>
   pop_value st = Some (Some (value_pool st ! vi), st\<lparr>value_stack := vs\<rparr>)"
  by (simp add: pop_value_def pop_value_ind_def HAS_ERROR_def)

subsection \<open>Predicates and positions\<close>



lemma scenario_second_a:
  "pathx_match tree_ex 2 (Some 0) ''/a[position() = 2]'' = Some (PATHX_NOERROR, [Some 3])"
  by code_simp

subsection \<open>Equality of strings\<close>

text \<open>
  On two strings \<^verbatim>\<open>eval_eq\<close> pushes \<^verbatim>\<open>streqx\<close> of the operands, for \<^verbatim>\<open>=\<close> and for \<^verbatim>\<open>!=\<close>
  alike: the last branch does not look at \<^verbatim>\<open>neq\<close>.
\<close>

lemma eval_eq_on_strings:
  assumes "\<not> HAS_ERROR st" and "value_stack st = vs @ [li, ri]"
    and "li < length (value_pool st)" and "ri < length (value_pool st)"
    and "value_pool st ! li = V_STRING l" and "value_pool st ! ri = V_STRING r"
  shows "eval_eq h st neq = Some (push_boolean_value (streqx l r) (st\<lparr>value_stack := vs\<rparr>))"
proof -
  have r: "pop_value st = Some (Some (V_STRING r), st\<lparr>value_stack := vs @ [li]\<rparr>)"
    using pop_value_ok [of st "vs @ [li]" ri] assms by simp
  have l: "pop_value (st\<lparr>value_stack := vs @ [li]\<rparr>) = Some (Some (V_STRING l), st\<lparr>value_stack := vs\<rparr>)"
    using pop_value_ok [of "st\<lparr>value_stack := vs @ [li]\<rparr>" vs li] assms
    by (simp add: HAS_ERROR_def)
  show ?thesis
    using assms(1) by (simp add: eval_eq_def r l HAS_ERROR_def)
qed

text \<open>
  Claim C2. For two strings \<^verbatim>\<open>=\<close> is true iff they are equal by \<^verbatim>\<open>streqx\<close>, and \<^verbatim>\<open>!=\<close>
  should be true iff they are not. The code evaluates \<^verbatim>\<open>'x' != 'y'\<close> to false and
  \<^verbatim>\<open>'x' != 'x'\<close> to true: as predicates on the nodes \<open>a\<close> of the example tree the first
  retains nothing and the second retains both nodes, as \<^verbatim>\<open>'x' = 'x'\<close> does. On numbers
  \<^verbatim>\<open>!=\<close> is the negation.
\<close>

theorem neq_of_strings_is_streq:
  "pathx_match tree_ex 2 (Some 0) ''/a['x' != 'y']'' = Some (PATHX_NOERROR, []) \<and>
   pathx_match tree_ex 2 (Some 0) ''/a['x' != 'x']'' = Some (PATHX_NOERROR, [Some 1, Some 3]) \<and>
   pathx_match tree_ex 2 (Some 0) ''/a['x' = 'x']'' = Some (PATHX_NOERROR, [Some 1, Some 3]) \<and>
   pathx_match tree_ex 2 (Some 0) ''/a[1 != 2]'' = Some (PATHX_NOERROR, [Some 1, Some 3])"
  by code_simp

subsection \<open>The parent axis\<close>

text \<open>
  Counterexample to claim C3 as stated: the root of the example tree is its own parent,
  and the step \<^verbatim>\<open>..\<close> from the root yields the root as its candidate, not nothing.
\<close>

theorem parent_of_root_counterexample:
  "t_parent (tree_ex ! 0) = Some 0 \<and>
   step_first tree_ex (Step PARENT None None) (Some 0) = Some (Some 0) \<and>
   pathx_match tree_ex 2 (Some 0) ''..'' = Some (PATHX_NOERROR, [Some 0])"
  by code_simp

text \<open>
  Claim C3, amended. For every context node, a step with the axis \<^verbatim>\<open>parent\<close> yields the
  node that the parent link of the context points to as its only candidate, subject to
  the name test, and no candidate when that link is \<^verbatim>\<open>NULL\<close>; for the root, whose parent
  link is a self-loop, that candidate is the root itself.
\<close>

theorem parent_step_candidates:
  assumes "axis step = PARENT" and "deref h c = Some t"
    and "t_parent t = None \<or> deref h (t_parent t) \<noteq> None"
  shows "ns_expand h step [c] [] =
     Some (if t_parent t \<noteq> None \<and> step_matches h step (t_parent t) = Some True
           then [t_parent t] else [])"
proof -
  have nxt: "step_next h step c' n = Some None" for c' n
    using assms(1)
    by (subst step_next.simps) (simp add: step_next_axis_def)
  have sm: "t_parent t \<noteq> None \<Longrightarrow> step_matches h step (t_parent t) \<noteq> None"
    using assms(3) by (auto simp: step_matches_def)
  have first: "step_first h step c =
      Some (if t_parent t \<noteq> None \<and> step_matches h step (t_parent t) = Some True
            then t_parent t else None)"
  proof (cases "t_parent t = None")
    case True
    then show ?thesis
      using assms(1,2) by (simp add: step_first_def step_first_axis_def)
  next
    case False
    then obtain m where m: "step_matches h step (t_parent t) = Some m"
      using sm by auto
    show ?thesis
      using assms(1,2) False m by (cases m) (simp_all add: step_first_def step_first_axis_def nxt)
  qed
  show ?thesis
    by (auto simp: first ns_add_from_Some [OF nxt])
qed

text \<open>
  From node 4 of the example tree, without and with a name that does not match, and from
  the root.
\<close>

theorem parent_step_candidates_witness:
  "ns_expand tree_ex (Step PARENT None None) [Some 4] [] = Some [Some 3] \<and>
   ns_expand tree_ex (Step PARENT (Some ''b'') None) [Some 4] [] = Some [] \<and>
   ns_expand tree_ex (Step PARENT None None) [Some 0] [] = Some [Some 0]"
  using parent_step_candidates [of "Step PARENT None None" tree_ex "Some 4" "tree_ex ! 4"]
    parent_step_candidates [of "Step PARENT (Some ''b'') None" tree_ex "Some 4" "tree_ex ! 4"]
    parent_step_candidates [of "Step PARENT None None" tree_ex "Some 0" "tree_ex ! 0"]
  by (simp add: tree_ex_def deref_def step_matches_def streqx_def)

subsection \<open>Brackets\<close>




lemma missing_bracket_example:
  "map_option fst (pathx_parse 2 None ''/a[b'') = Some PATHX_EPRED"
  by code_simp

subsection \<open>The root of an accepted expression\<close>

text \<open>
  Claim C5. When \<^verbatim>\<open>pathx_parse\<close> returns \<^verbatim>\<open>PATHX_NOERROR\<close>, exactly one expression is on
  the expression stack, its tag is \<^verbatim>\<open>E_LOCPATH\<close>, its type is \<^verbatim>\<open>T_NODESET\<close>, and its path is
  the path of the compiled expression. A parse and check that end without an error on
  one expression of another type or tag are reported as \<^verbatim>\<open>PATHX_ETYPE\<close>.
\<close>

theorem pathx_parse_root:
  "(pathx_parse depth tree text = Some (PATHX_NOERROR, p) \<longrightarrow>
      (\<exists>e. exprs (state p) = [e] \<and> tag e = E_LOCPATH \<and> type_of e = T_NODESET \<and>
           e = Locpath T_NODESET (locpath p))) \<and>
   (parse_expr depth (init_state text) = Some st1 \<and> \<not> HAS_ERROR st1 \<and> length (exprs st1) = 1 \<and>
    check_expr (exprs st1 ! 0) st1 = Some (e, st2) \<and> \<not> HAS_ERROR st2 \<and>
    (type_of e \<noteq> T_NODESET \<or> tag e \<noteq> E_LOCPATH) \<longrightarrow>
      map_option fst (pathx_parse depth tree text) = Some PATHX_ETYPE)"
proof (intro conjI impI)
  assume a: "pathx_parse depth tree text = Some (PATHX_NOERROR, p)"
  then obtain st1 where p1: "parse_expr depth (init_state text) = Some st1"
    by (auto simp: pathx_parse_def split: option.splits)
  from a p1 have ne1: "\<not> HAS_ERROR st1" and len: "length (exprs st1) = 1"
    by (auto simp: pathx_parse_def pathx_done_def HAS_ERROR_def STATE_ERROR_def split: if_splits)
  from a p1 ne1 len obtain e st2 where c: "check_expr (exprs st1 ! 0) st1 = Some (e, st2)"
    by (auto simp: pathx_parse_def split: option.splits)
  have ex: "(exprs st2)[0 := e] = [e]"
    using check_expr_exprs [OF c] len by (cases "exprs st1") simp_all
  from a p1 ne1 len c ex
  show "\<exists>e. exprs (state p) = [e] \<and> tag e = E_LOCPATH \<and> type_of e = T_NODESET \<and>
           e = Locpath T_NODESET (locpath p)"
    by (cases e)
      (auto simp: pathx_parse_def pathx_done_def Let_def HAS_ERROR_def STATE_ERROR_def
        split: if_splits)
next
  assume "parse_expr depth (init_state text) = Some st1 \<and> \<not> HAS_ERROR st1 \<and>
    length (exprs st1) = 1 \<and> check_expr (exprs st1 ! 0) st1 = Some (e, st2) \<and> \<not> HAS_ERROR st2 \<and>
    (type_of e \<noteq> T_NODESET \<or> tag e \<noteq> E_LOCPATH)"
  then show "map_option fst (pathx_parse depth tree text) = Some PATHX_ETYPE"
    by (auto simp: pathx_parse_def pathx_done_def Let_def HAS_ERROR_def STATE_ERROR_def)
qed

text \<open>
  The text \<^verbatim>\<open>/a[2]\<close> is accepted; the text \<^verbatim>\<open>1\<close> parses to a number and is refused.
\<close>

theorem pathx_parse_root_witness:
  "(\<exists>p e. pathx_parse 2 (Some 0) ''/a[2]'' = Some (PATHX_NOERROR, p) \<and> exprs (state p) = [e] \<and>
      tag e = E_LOCPATH \<and> type_of e = T_NODESET) \<and>
   map_option fst (pathx_parse 2 None ''1'') = Some PATHX_ETYPE"
proof -
  have "map_option fst (pathx_parse 2 (Some 0) ''/a[2]'') = Some PATHX_NOERROR"
    by code_simp
  then obtain p where p: "pathx_parse 2 (Some 0) ''/a[2]'' = Some (PATHX_NOERROR, p)"
    by (cases "pathx_parse 2 (Some 0) ''/a[2]''") auto
  let ?st1 = "the (parse_expr 2 (init_state ''1''))"
  let ?c = "the (check_expr (exprs ?st1 ! 0) ?st1)"
  have 1: "parse_expr 2 (init_state ''1'') \<noteq> None" by code_simp
  have 2: "\<not> HAS_ERROR ?st1" by code_simp
  have 3: "length (exprs ?st1) = 1" by code_simp
  have 4: "check_expr (exprs ?st1 ! 0) ?st1 \<noteq> None" by code_simp
  have 5: "\<not> HAS_ERROR (snd ?c)" by code_simp
  have 6: "type_of (fst ?c) \<noteq> T_NODESET" by code_simp
  from 1 have p1: "parse_expr 2 (init_state ''1'') = Some ?st1" by auto
  from 4 have p4: "check_expr (exprs ?st1 ! 0) ?st1 = Some (fst ?c, snd ?c)" by auto
  show ?thesis
    using pathx_parse_root [of 2 "Some 0" "''/a[2]''" p] p
      pathx_parse_root [of 2 None "''1''" p ?st1 "fst ?c" "snd ?c"] p1 2 3 p4 5 6
    by blast
qed

subsection \<open>Iterating over the result\<close>

text \<open>
  Claim C6. \<^verbatim>\<open>pathx_first\<close> and then \<^verbatim>\<open>pathx_next\<close> until it returns \<^verbatim>\<open>NULL\<close> should
  yield as many distinct nodes as the final node set has entries. On the example tree the
  path \<^verbatim>\<open>*/..\<close> from the root has a final node set of three entries, and the iteration
  yields the root three times: the working node sets are not made unique (the
  \<^verbatim>\<open>FIXME\<close> of \<^verbatim>\<open>ns_from_locpath\<close>).
\<close>

theorem iteration_repeats_a_node:
  "pathx_match tree_ex 2 (Some 0) ''*/..'' = Some (PATHX_NOERROR, [Some 0, Some 0, Some 0])"
  by code_simp

subsection \<open>Primary expression or location path\<close>

text \<open>
  Claim C7. A path expression should be taken for a primary expression only when the
  text starts with a quote, a digit, or one or more letters followed by optional white
  space and an opening parenthesis. \<^verbatim>\<open>looking_at_primary_expr\<close> also says yes on an
  opening parenthesis with no letter before it, and at the end of the text: the text
  \<^verbatim>\<open>(a\<close>, which \<^verbatim>\<open>parse_location_path\<close> accepts as a name, fails with \<^verbatim>\<open>PATHX_ENAME\<close>,
  and the empty text fails with \<^verbatim>\<open>PATHX_ESTRING\<close>.
\<close>

theorem paren_without_letters_is_primary:
  "looking_at_primary_expr (init_state ''(a'') \<and>
   pathx_match tree_ex 2 (Some 0) ''(a'' = Some (PATHX_ENAME, []) \<and>
   map_option errcode (parse_location_path (parse_expr 1) (init_state ''(a'')) = Some PATHX_NOERROR \<and>
   looking_at_primary_expr (init_state []) \<and>
   pathx_match tree_ex 2 (Some 0) [] = Some (PATHX_ESTRING, [])"
  by code_simp

subsection \<open>Numbers\<close>

text \<open>
  Claim C8. A digit sequence whose value does not fit into a signed 32 bit integer should
  fail with \<^verbatim>\<open>PATHX_ENUMBER\<close>. The test \<^verbatim>\<open>(int) val != val\<close> compares the sign extension
  of the low 32 bits with the \<^verbatim>\<open>unsigned long\<close>: on \<^verbatim>\<open>18446744073709551615\<close> both are
  \<open>2 ^ 64 - 1\<close>, the number is accepted and its value is \<open>-1\<close>. The text
  \<^verbatim>\<open>2147483648\<close> is refused and \<^verbatim>\<open>2147483647\<close> is accepted.
\<close>

theorem parse_number_accepts_ulong_max:
  "map_option (\<lambda>s. (errcode s, value_pool s, exprs s))
     (parse_number (init_state ''18446744073709551615'')) =
     Some (PATHX_NOERROR, [V_BOOLEAN False, V_BOOLEAN True, V_NUMBER (- 1)], [Value T_NONE 2]) \<and>
   pathx_match tree_ex 2 (Some 0) ''/a[18446744073709551615]'' = Some (PATHX_NOERROR, []) \<and>
   pathx_match tree_ex 2 (Some 0) ''/a[2147483648]'' = Some (PATHX_ENUMBER, []) \<and>
   pathx_match tree_ex 2 (Some 0) ''/a[2147483647]'' = Some (PATHX_NOERROR, [])"
  by code_simp

subsection \<open>Calling first again\<close>

text \<open>
  Claim C9. After a call of \<^verbatim>\<open>pathx_first\<close> that ends without an error, the node set is
  cached in the compiled path and the cursor is 0; every later call returns the same
  node (or \<^verbatim>\<open>NULL\<close> again) and leaves the compiled path as it is, whatever the store
  \<open>h'\<close> holds by then: the expression is not evaluated again.
\<close>

theorem pathx_first_idempotent:
  assumes "pathx_first h p = Some (t, p1)" and "errcode (state p1) = PATHX_NOERROR"
  shows "nodeset p1 \<noteq> None \<and> node p1 = 0 \<and> pathx_first h' p1 = Some (t, p1)"
  using assms
  by (auto simp: pathx_first_def pathx_first_eval_def Let_def HAS_ERROR_def STATE_ERROR_def
      split: if_splits option.splits sum.splits list.splits prod.splits value_t.splits)

text \<open>
  The path \<^verbatim>\<open>/a\<close> on the example tree; the second call is given an empty store.
\<close>

theorem pathx_first_idempotent_witness:
  "\<exists>p1. pathx_first tree_ex path_a = Some (Some 1, p1) \<and> nodeset p1 \<noteq> None \<and> node p1 = 0 \<and>
        pathx_first [] p1 = Some (Some 1, p1)"
proof -
  have a: "map_option fst (pathx_first tree_ex path_a) = Some (Some 1)"
    by code_simp
  have b: "map_option (errcode \<circ> state \<circ> snd) (pathx_first tree_ex path_a) = Some PATHX_NOERROR"
    by code_simp
  obtain p1 where f: "pathx_first tree_ex path_a = Some (Some 1, p1)"
    and e: "errcode (state p1) = PATHX_NOERROR"
    using a b by (cases "pathx_first tree_ex path_a") auto
  show ?thesis
    using pathx_first_idempotent [OF f e, of "[]"] f by blast
qed

subsection \<open>Expanding a path that exists\<close>



end
